theory Spec2Isabelle
  imports Main
begin

section \<open>Errors\<close>

text \<open>
  The two sources raise with \<^verbatim>\<open>throw new Error(message)\<close>; reading a property of
  \<^verbatim>\<open>null\<close> raises a \<^verbatim>\<open>TypeError\<close>, whose text is the engine's own.
\<close>

datatype error = Error string | TypeError

section \<open>JavaScript values\<close>

text \<open>
  The values that GraphQL data and variables are made of. An object is the list of its
  own enumerable properties in insertion order, each key once. (JavaScript lists keys
  that are array indices first; the properties below are looked up by key, so their
  order plays no part.)
\<close>

datatype jsval =
    JUndefined
  | JNull
  | JBool bool
  | JNum int
  | JStr string
  | JArr "jsval list"
  | JObj "(string \<times> jsval) list"

type_synonym jsobj = "(string \<times> jsval) list"

text \<open>\<^verbatim>\<open>obj[key] = v\<close>: an existing key keeps its place, a new key goes last.\<close>

fun setProp :: "('k \<times> 'v) list \<Rightarrow> 'k \<Rightarrow> 'v \<Rightarrow> ('k \<times> 'v) list" where
  "setProp [] k v = [(k, v)]"
| "setProp (p # ps) k v = (if fst p = k then (k, v) # ps else p # setProp ps k v)"

text \<open>\<^verbatim>\<open>obj[key]\<close> on an object: \<^verbatim>\<open>undefined\<close> for a key that the object does not have.\<close>

definition getProp :: "jsobj \<Rightarrow> string \<Rightarrow> jsval" where
  "getProp obj key = (case map_of obj key of None \<Rightarrow> JUndefined | Some v \<Rightarrow> v)"

text \<open>
  \<^verbatim>\<open>{ ...target, ...source }\<close>: the properties of \<open>source\<close> are assigned to the copy of
  \<open>target\<close> one after the other.
\<close>

definition spreadInto :: "('k \<times> 'v) list \<Rightarrow> ('k \<times> 'v) list \<Rightarrow> ('k \<times> 'v) list" where
  "spreadInto target source = foldl (\<lambda>acc p. setProp acc (fst p) (snd p)) target source"

text \<open>\<^verbatim>\<open>Object.fromEntries(entries)\<close>: a later entry for a key replaces an earlier one.\<close>

definition fromEntries :: "(string \<times> jsval) list \<Rightarrow> jsobj" where
  "fromEntries entries = spreadInto [] entries"

subsection \<open>Promises and what a spread copies\<close>

text \<open>
  An \<^verbatim>\<open>async\<close> function never throws to its caller: it returns a promise, fulfilled with
  the value its body returns or rejected with the error its body throws.
\<close>

datatype 'a promise = Fulfilled 'a | Rejected error

definition async :: "error + 'a \<Rightarrow> 'a promise" where
  "async body = (case body of Inl e \<Rightarrow> Rejected e | Inr v \<Rightarrow> Fulfilled v)"

text \<open>
  The operand of a spread in an object literal, for the operands that occur in the stores:
  \<^verbatim>\<open>undefined\<close>, an object, or a promise. A spread copies the own enumerable properties
  of its operand. \<^verbatim>\<open>undefined\<close> has none, and neither has a promise object: the value it
  is fulfilled with is not a property of it.
\<close>

datatype spreadOperand =
    SpreadUndefined
  | SpreadObject jsobj
  | SpreadPromise "jsobj promise"

fun ownEnumerableProps :: "spreadOperand \<Rightarrow> jsobj" where
  "ownEnumerableProps SpreadUndefined = []"
| "ownEnumerableProps (SpreadObject props) = props"
| "ownEnumerableProps (SpreadPromise p) = []"

section \<open>Artifacts and the configuration\<close>

text \<open>
  Of a \<^verbatim>\<open>QueryArtifact\<close> the stores read \<^verbatim>\<open>refetch.targetType\<close>; \<^verbatim>\<open>refetch\<close> is optional.
  Of the config file they read \<^verbatim>\<open>types\<close> (optional), a table from a type's name to its
  \<^verbatim>\<open>{ keys, resolve?: { arguments? } }\<close>. A resolver is given the cached value, which is
  an object or \<^verbatim>\<open>null\<close> (\<open>None\<close>); it is declared to return an object, and \<open>None\<close>
  stands for a falsy result, which the code replaces by \<^verbatim>\<open>{}\<close>.
\<close>

record refetchInfo =
  targetType :: string

record queryArtifact =
  artifact_name :: string
  refetch :: "refetchInfo option"

record resolveConfig =
  arguments :: "(jsobj option \<Rightarrow> jsobj option) option"

record typeConfig =
  keys :: "string list"
  resolve :: "resolveConfig option"

record configFile =
  types :: "(string \<rightharpoonup> typeConfig) option"

section \<open>The client: \<^verbatim>\<open>runtime/client/index.ts\<close>\<close>

subsection \<open>Plugins\<close>

text \<open>
  The plugin values come from \<^verbatim>\<open>./plugins\<close>. The constructor never calls them, it only
  places them in a list, so each imported name is a constructor; \<^verbatim>\<open>fetchParamsPlugin\<close>
  and \<^verbatim>\<open>fetchPlugin\<close> are applied to an argument, which the constructor keeps.
  \<^verbatim>\<open>subscriptionPlugin\<close> is re-exported for callers that write their own pipeline, and
  \<open>otherPlugin\<close> stands for any plugin written by the caller or contributed by a
  framework integration. The type \<open>'fn\<close> is the type of the caller's functions
  (\<^verbatim>\<open>FetchParamFn\<close>, a fetch function).
\<close>

datatype 'fn clientPlugin =
    inputsPlugin
  | fetchParamsPlugin 'fn
  | queryPlugin
  | mutationPlugin
  | subscriptionPlugin
  | fetchPlugin "'fn option"
  | otherPlugin nat

fun isFetchPlugin :: "'fn clientPlugin \<Rightarrow> bool" where
  "isFetchPlugin (fetchPlugin f) = True"
| "isFetchPlugin p = False"

subsection \<open>\<^verbatim>\<open>Array.prototype.concat\<close>\<close>

text \<open>
  \<^verbatim>\<open>xs.concat(a1, ..., an)\<close> copies \<open>xs\<close> and then appends each argument: the elements
  of an argument that is an array, the argument itself otherwise.
\<close>

datatype 'a concatArg = Arr "'a list" | Elem 'a

fun concatItems :: "'a concatArg \<Rightarrow> 'a list" where
  "concatItems (Arr ys) = ys"
| "concatItems (Elem y) = [y]"

definition concat_js :: "'a list \<Rightarrow> 'a concatArg list \<Rightarrow> 'a list" where
  "concat_js xs as = xs @ concat (map concatItems as)"

subsection \<open>\<^verbatim>\<open>HoudiniClient\<close>\<close>

text \<open>
  \<^verbatim>\<open>ConstructorArgs\<close>: an optional member is an \<open>option\<close>, \<open>None\<close> when it is left out.
  A present \<^verbatim>\<open>plugins\<close> array is truthy also when it is empty, and so is every function.
\<close>

record 'fn constructorArgs =
  url :: string
  fetchParams :: "'fn option"
  plugins :: "'fn clientPlugin list option"
  pipeline :: "(unit \<Rightarrow> 'fn clientPlugin list) option"

text \<open>The instance: the public \<^verbatim>\<open>url\<close> and the private \<^verbatim>\<open>#plugins\<close>.\<close>

record 'fn houdiniClient =
  client_url :: string
  client_plugins :: "'fn clientPlugin list"

text \<open>
  The constructor. \<open>pluginsFromPlugins\<close> is the default export of
  \<^verbatim>\<open>./injectedPlugins\<close>, an array that is not part of these sources, so it is a parameter.
  \<^verbatim>\<open>pipeline?.() ?? rest\<close>: \<^verbatim>\<open>pipeline\<close> is declared to return an array, which is never
  nullish, so \<open>rest\<close> is taken exactly when \<^verbatim>\<open>pipeline\<close> is left out.
  \<^verbatim>\<open>fetchPlugin()\<close> is called with no argument.
\<close>

definition HoudiniClient ::
  "'fn clientPlugin list \<Rightarrow> 'fn constructorArgs \<Rightarrow> error + 'fn houdiniClient" where
  "HoudiniClient pluginsFromPlugins args =
     (if plugins args \<noteq> None \<and> pipeline args \<noteq> None then
        Inl (Error ''A client cannot be given a pipeline and a list of plugins at the same time.'')
      else
        Inr \<lparr> client_url = url args,
              client_plugins =
                concat_js [inputsPlugin]
                  [ Arr (case fetchParams args of
                           Some fp \<Rightarrow> [fetchParamsPlugin fp]
                         | None \<Rightarrow> []),
                    Arr (case pipeline args of
                           Some p \<Rightarrow> p ()
                         | None \<Rightarrow>
                             concat_js [queryPlugin, mutationPlugin]
                               [ Arr (case plugins args of Some ps \<Rightarrow> ps | None \<Rightarrow> []),
                                 Arr pluginsFromPlugins,
                                 Elem (fetchPlugin None) ]) ] \<rparr>)"

text \<open>
  \<^verbatim>\<open>observe({ artifact, cache = true })\<close> returns
  \<^verbatim>\<open>new DocumentObserver({ client: this, artifact, plugins: this.#plugins, cache })\<close>.
  The class \<^verbatim>\<open>DocumentObserver\<close> is imported; what is modelled of a new instance is the
  argument it is built from.
\<close>

record 'art observeArgs =
  oa_artifact :: 'art
  oa_cache :: "bool option"

record ('fn, 'art) documentObserverArgs =
  do_client :: "'fn houdiniClient"
  do_artifact :: 'art
  do_plugins :: "'fn clientPlugin list"
  do_cache :: bool

definition observe ::
  "'fn houdiniClient \<Rightarrow> 'art observeArgs \<Rightarrow> ('fn, 'art) documentObserverArgs" where
  "observe this args =
     \<lparr> do_client = this,
       do_artifact = oa_artifact args,
       do_plugins = client_plugins this,
       do_cache = (case oa_cache args of None \<Rightarrow> True | Some c \<Rightarrow> c) \<rparr>"

subsection \<open>Running the hooks of a plugin list\<close>





section \<open>The paginated fragment stores: \<^verbatim>\<open>stores/pagination/fragment.ts\<close>\<close>

subsection \<open>Observers\<close>

text \<open>
  The value that a store built on an observer holds
  (\<^verbatim>\<open>FragmentPaginatedResult\<close>): the data, \<^verbatim>\<open>null\<close> being \<open>None\<close>, and the fetching flag.
\<close>

record fragmentPaginatedResult =
  data :: "jsobj option"
  fetching :: bool

text \<open>The argument of \<^verbatim>\<open>send\<close>; \<open>otherParams\<close> holds the members the stores only pass on.\<close>

record cacheParams =
  applyUpdates :: "bool option"

record sendParams =
  variables :: "jsobj option"
  cacheParams :: "cacheParams option"
  otherParams :: jsobj

text \<open>
  A \<^verbatim>\<open>DocumentObserver\<close> instance. The class is imported, so of an instance the model
  keeps what it was constructed from, the value that \<^verbatim>\<open>get(store)\<close> reads, and the
  arguments of the calls of \<^verbatim>\<open>send\<close> made on it, oldest first.
\<close>

record 'fn documentObserver =
  obs_args :: "('fn, queryArtifact) documentObserverArgs"
  obs_value :: fragmentPaginatedResult
  obs_sent :: "sendParams list"

text \<open>
  Instances are objects with an identity: a reference is the number of the instance,
  \<open>allocated\<close> counts the instances created so far. \<open>unhandledRejections\<close> collects
  the errors of rejected promises that no code awaits or catches.
\<close>

type_synonym ref = nat

record 'fn world =
  heap :: "ref \<Rightarrow> 'fn documentObserver"
  allocated :: nat
  unhandledRejections :: "error list"

text \<open>
  What the module reads from outside: the current config (\<^verbatim>\<open>getCurrentConfig()\<close>), the
  current client (\<^verbatim>\<open>getCurrentClient()\<close>), the constant \<^verbatim>\<open>siteURL\<close>, the helper
  \<^verbatim>\<open>keyFieldsForType\<close>, and of the class \<^verbatim>\<open>DocumentObserver\<close> the value a new instance
  holds and the names of the own enumerable properties of an instance. None of them is
  part of these sources, so they are parameters.
\<close>

record 'fn env =
  getCurrentConfig :: configFile
  getCurrentClient :: "'fn houdiniClient"
  siteURL :: string
  keyFieldsForType :: "configFile \<Rightarrow> string \<Rightarrow> string list"
  newObserverValue :: fragmentPaginatedResult
  observerOwnKeys :: "string list"

text \<open>
  Modelled from the spec: \<^verbatim>\<open>keyFieldsForType\<close> of \<^verbatim>\<open>runtime/lib/config\<close> is missing; the
  spec has the key fields of a type as the \<^verbatim>\<open>keys\<close> of its entry in the type
  configuration. It is used where a concrete \<open>env\<close> is needed.
\<close>

definition keyFieldsForType_spec :: "configFile \<Rightarrow> string \<Rightarrow> string list" where
  "keyFieldsForType_spec config type =
     (case types config of
        None \<Rightarrow> []
      | Some table \<Rightarrow> (case table type of None \<Rightarrow> [] | Some typeConfig \<Rightarrow> keys typeConfig))"

text \<open>\<^verbatim>\<open>new DocumentObserver(args)\<close>: a new instance, distinct from every earlier one.\<close>

definition newDocumentObserver ::
  "'fn env \<Rightarrow> ('fn, queryArtifact) documentObserverArgs \<Rightarrow> 'fn world \<Rightarrow> ref \<times> 'fn world" where
  "newDocumentObserver env args w =
     (allocated w,
      w\<lparr> heap := (heap w)(allocated w :=
              \<lparr> obs_args = args, obs_value = newObserverValue env, obs_sent = [] \<rparr>),
         allocated := Suc (allocated w) \<rparr>)"

text \<open>
  \<^verbatim>\<open>getCurrentClient().observe({ artifact, initialValue })\<close>. The client's \<^verbatim>\<open>observe\<close>
  reads \<^verbatim>\<open>artifact\<close> and \<^verbatim>\<open>cache\<close> from its argument, so \<^verbatim>\<open>initialValue\<close> does not reach
  it and \<^verbatim>\<open>cache\<close> is left out.
\<close>

definition clientObserve :: "'fn env \<Rightarrow> queryArtifact \<Rightarrow> 'fn world \<Rightarrow> ref \<times> 'fn world" where
  "clientObserve env artifact w =
     newDocumentObserver env
       (observe (getCurrentClient env) \<lparr> oa_artifact = artifact, oa_cache = None \<rparr>) w"

text \<open>\<^verbatim>\<open>get(store)\<close> on an observer, and \<^verbatim>\<open>observer.send(params)\<close>.\<close>

definition getStore :: "'fn world \<Rightarrow> ref \<Rightarrow> fragmentPaginatedResult" where
  "getStore w observer = obs_value (heap w observer)"

text \<open>
  What \<^verbatim>\<open>send\<close> does with its argument is the observer's business. The call is
  recorded, and the promise it returns is named by the observer and the argument.
\<close>

datatype sendPromise = SendPromise ref sendParams

definition send :: "ref \<Rightarrow> sendParams \<Rightarrow> 'fn world \<Rightarrow> sendPromise \<times> 'fn world" where
  "send observer params w =
     (SendPromise observer params,
      w\<lparr> heap := (heap w)(observer :=
              (heap w observer)\<lparr> obs_sent := obs_sent (heap w observer) @ [params] \<rparr>) \<rparr>)"

text \<open>A promise that is dropped: its rejection, if any, is reported as unhandled.\<close>

definition dropPromise :: "'a promise \<Rightarrow> 'fn world \<Rightarrow> 'fn world" where
  "dropPromise p w =
     (case p of
        Fulfilled v \<Rightarrow> w
      | Rejected e \<Rightarrow> w\<lparr> unhandledRejections := unhandledRejections w @ [e] \<rparr>)"

subsection \<open>\<^verbatim>\<open>BasePaginatedFragmentStore\<close>\<close>

record fragmentStore =
  paginationArtifact :: queryArtifact
  name :: string

text \<open>
  \<^verbatim>\<open>const { targetType } = this.paginationArtifact.refetch || {}\<close>: \<^verbatim>\<open>undefined\<close>
  (\<open>None\<close>) when the artifact has no \<^verbatim>\<open>refetch\<close>.
\<close>

definition targetTypeOf :: "fragmentStore \<Rightarrow> string option" where
  "targetTypeOf this =
     (case refetch (paginationArtifact this) of None \<Rightarrow> None | Some r \<Rightarrow> Some (targetType r))"

text \<open>\<^verbatim>\<open>targetType || ''\<close>\<close>

definition orEmpty :: "string option \<Rightarrow> string" where
  "orEmpty t = (case t of None \<Rightarrow> [] | Some s \<Rightarrow> s)"

text \<open>The message of the error; \<^verbatim>\<open>undefined\<close> is printed as its name in a template.\<close>

definition missingTypeMessage :: "string \<Rightarrow> string option \<Rightarrow> string" where
  "missingTypeMessage site t =
     ''Missing type refetch configuration for ''
     @ (case t of None \<Rightarrow> ''undefined'' | Some s \<Rightarrow> s)
     @ ''. For more information, see '' @ site @ ''/guides/pagination#paginated-fragments''"

text \<open>\<^verbatim>\<open>typeConfig.resolve?.arguments\<close>\<close>

definition resolveArguments :: "typeConfig \<Rightarrow> (jsobj option \<Rightarrow> jsobj option) option" where
  "resolveArguments typeConfig =
     (case resolve typeConfig of None \<Rightarrow> None | Some r \<Rightarrow> arguments r)"

text \<open>
  \<^verbatim>\<open>keys.map((key) => [key, value[key]])\<close>: reading a property of \<^verbatim>\<open>null\<close> throws, which
  happens at the first key; with no key nothing is read.
\<close>

fun keyEntries :: "jsobj option \<Rightarrow> string list \<Rightarrow> error + (string \<times> jsval) list" where
  "keyEntries val [] = Inr []"
| "keyEntries val (key # rest) =
     (case val of
        None \<Rightarrow> Inl TypeError
      | Some obj \<Rightarrow>
          (case keyEntries val rest of
             Inl e \<Rightarrow> Inl e
           | Inr entries \<Rightarrow> Inr ((key, getProp obj key) # entries)))"

text \<open>
  The body of \<^verbatim>\<open>queryVariables\<close>, given the value that \<^verbatim>\<open>get(store)\<close> returns; \<open>Inl\<close>
  is a \<^verbatim>\<open>throw\<close>. The result is \<^verbatim>\<open>{ ...idVariables }\<close>.
\<close>

definition queryVariables_body ::
  "'fn env \<Rightarrow> fragmentStore \<Rightarrow> fragmentPaginatedResult \<Rightarrow> error + jsobj" where
  "queryVariables_body env this current =
     (let config = getCurrentConfig env;
          t = targetTypeOf this;
          typeConfig = (case types config of None \<Rightarrow> None | Some table \<Rightarrow> table (orEmpty t))
      in case typeConfig of
           None \<Rightarrow> Inl (Error (missingTypeMessage (siteURL env) t))
         | Some tc \<Rightarrow>
             (let val = data current in
              case resolveArguments tc of
                Some resolver \<Rightarrow>
                  Inr (spreadInto [] (case resolver val of None \<Rightarrow> [] | Some vars \<Rightarrow> vars))
              | None \<Rightarrow>
                  (case keyEntries val (keyFieldsForType env config (orEmpty t)) of
                     Inl e \<Rightarrow> Inl e
                   | Inr entries \<Rightarrow> Inr (spreadInto [] (fromEntries entries)))))"

text \<open>\<^verbatim>\<open>queryVariables\<close> is declared \<^verbatim>\<open>async\<close>.\<close>

definition queryVariables ::
  "'fn env \<Rightarrow> fragmentStore \<Rightarrow> 'fn world \<Rightarrow> ref \<Rightarrow> jsobj promise" where
  "queryVariables env this w store = async (queryVariables_body env this (getStore w store))"

subsection \<open>The closures given to the handlers\<close>

text \<open>\<^verbatim>\<open>{ ...args }\<close> and \<^verbatim>\<open>args?.variables\<close>, for an \<^verbatim>\<open>args\<close> that may be \<^verbatim>\<open>undefined\<close>.\<close>

definition spreadArgs :: "sendParams option \<Rightarrow> sendParams" where
  "spreadArgs args =
     (case args of
        None \<Rightarrow> \<lparr> variables = None, cacheParams = None, otherParams = [] \<rparr>
      | Some a \<Rightarrow> a)"

definition argsVariables :: "sendParams option \<Rightarrow> spreadOperand" where
  "argsVariables args =
     (case args of
        None \<Rightarrow> SpreadUndefined
      | Some a \<Rightarrow> (case variables a of None \<Rightarrow> SpreadUndefined | Some v \<Rightarrow> SpreadObject v))"

text \<open>The object literal \<^verbatim>\<open>{ ...a, ...b }\<close>.\<close>

definition spreadBoth :: "spreadOperand \<Rightarrow> spreadOperand \<Rightarrow> jsobj" where
  "spreadBoth a b = spreadInto (spreadInto [] (ownEnumerableProps a)) (ownEnumerableProps b)"

text \<open>
  \<^verbatim>\<open>FragmentStoreCursor.storeHandlers\<close> passes two closures over \<^verbatim>\<open>this\<close> and
  \<^verbatim>\<open>observer\<close>. Each evaluates its argument for \<^verbatim>\<open>send\<close> first: the call
  \<^verbatim>\<open>this.queryVariables(observer)\<close> yields a promise, which is the operand of the second
  spread and is used nowhere else. Then it calls \<^verbatim>\<open>send\<close> and returns what
  \<^verbatim>\<open>send\<close> returns.
\<close>

definition storeHandlers_fetchUpdate ::
  "'fn env \<Rightarrow> fragmentStore \<Rightarrow> ref \<Rightarrow> sendParams option \<Rightarrow> 'fn world
     \<Rightarrow> sendPromise promise \<times> 'fn world" where
  "storeHandlers_fetchUpdate env this observer args w =
     (let idVariables = queryVariables env this w observer;
          params = (spreadArgs args)
            \<lparr> variables := Some (spreadBoth (argsVariables args) (SpreadPromise idVariables)),
              cacheParams := Some \<lparr> applyUpdates = Some True \<rparr> \<rparr>;
          sent = send observer params (dropPromise idVariables w)
      in (async (Inr (fst sent)), snd sent))"

definition storeHandlers_fetch ::
  "'fn env \<Rightarrow> fragmentStore \<Rightarrow> ref \<Rightarrow> sendParams option \<Rightarrow> 'fn world
     \<Rightarrow> sendPromise promise \<times> 'fn world" where
  "storeHandlers_fetch env this observer args w =
     (let idVariables = queryVariables env this w observer;
          params = (spreadArgs args)
            \<lparr> variables := Some (spreadBoth (argsVariables args) (SpreadPromise idVariables)) \<rparr>;
          sent = send observer params (dropPromise idVariables w)
      in (async (Inr (fst sent)), snd sent))"

text \<open>\<^verbatim>\<open>FragmentStoreOffset.get\<close> passes closures with the same two bodies.\<close>

definition offset_fetch ::
  "'fn env \<Rightarrow> fragmentStore \<Rightarrow> ref \<Rightarrow> sendParams option \<Rightarrow> 'fn world
     \<Rightarrow> sendPromise promise \<times> 'fn world" where
  "offset_fetch env this observer args w =
     (let idVariables = queryVariables env this w observer;
          params = (spreadArgs args)
            \<lparr> variables := Some (spreadBoth (argsVariables args) (SpreadPromise idVariables)) \<rparr>;
          sent = send observer params (dropPromise idVariables w)
      in (async (Inr (fst sent)), snd sent))"

definition offset_fetchUpdate ::
  "'fn env \<Rightarrow> fragmentStore \<Rightarrow> ref \<Rightarrow> sendParams option \<Rightarrow> 'fn world
     \<Rightarrow> sendPromise promise \<times> 'fn world" where
  "offset_fetchUpdate env this observer args w =
     (let idVariables = queryVariables env this w observer;
          params = (spreadArgs args)
            \<lparr> variables := Some (spreadBoth (argsVariables args) (SpreadPromise idVariables)),
              cacheParams := Some \<lparr> applyUpdates = Some True \<rparr> \<rparr>;
          sent = send observer params (dropPromise idVariables w)
      in (async (Inr (fst sent)), snd sent))"

text \<open>A closure as a value: which of the four it is and the observer it closes over.\<close>

datatype closure =
    CursorFetchUpdate ref
  | CursorFetch ref
  | OffsetFetch ref
  | OffsetFetchUpdate ref

fun capturedObserver :: "closure \<Rightarrow> ref" where
  "capturedObserver (CursorFetchUpdate observer) = observer"
| "capturedObserver (CursorFetch observer) = observer"
| "capturedObserver (OffsetFetch observer) = observer"
| "capturedObserver (OffsetFetchUpdate observer) = observer"

fun callClosure ::
  "'fn env \<Rightarrow> fragmentStore \<Rightarrow> closure \<Rightarrow> sendParams option \<Rightarrow> 'fn world
     \<Rightarrow> sendPromise promise \<times> 'fn world" where
  "callClosure env this (CursorFetchUpdate observer) args w =
     storeHandlers_fetchUpdate env this observer args w"
| "callClosure env this (CursorFetch observer) args w =
     storeHandlers_fetch env this observer args w"
| "callClosure env this (OffsetFetch observer) args w =
     offset_fetch env this observer args w"
| "callClosure env this (OffsetFetchUpdate observer) args w =
     offset_fetchUpdate env this observer args w"

subsection \<open>Handlers and handles\<close>

text \<open>
  \<^verbatim>\<open>cursorHandlers\<close> and \<^verbatim>\<open>offsetHandlers\<close> are imported. A handlers object is
  represented by the call that made it, that is by the configuration it was given.
\<close>

record handlersConfig =
  hc_artifact :: queryArtifact
  hc_fetchUpdate :: closure
  hc_fetch :: closure
  hc_observer :: ref
  hc_storeName :: string

datatype handlers = cursorHandlers handlersConfig | offsetHandlers handlersConfig

fun configOf :: "handlers \<Rightarrow> handlersConfig" where
  "configOf (cursorHandlers c) = c"
| "configOf (offsetHandlers c) = c"

text \<open>
  The members of the object that \<^verbatim>\<open>get\<close> returns: the constant
  \<^verbatim>\<open>CompiledFragmentKind\<close>, \<^verbatim>\<open>derived(store, ...)\<close>, the \<^verbatim>\<open>subscribe\<close> function over
  \<^verbatim>\<open>store\<close> and \<^verbatim>\<open>handlers.pageInfo\<close>, the \<^verbatim>\<open>loading\<close> store, a member \<^verbatim>\<open>handlers.m\<close> of a
  handlers object, and an own property of an observer copied by a spread.
\<close>

datatype member =
    kindMember
  | dataMember ref
  | subscribeMember ref handlers
  | loadingMember
  | handlerMember handlers string
  | observerMember ref string

type_synonym handle = "(string \<times> member) list"

text \<open>
  Modelled from the spec: the bodies of \<^verbatim>\<open>cursorHandlers\<close> and \<^verbatim>\<open>offsetHandlers\<close> are
  missing. By the spec a page-navigation operation delegates to \<^verbatim>\<open>send\<close> of the wrapped
  observer, which it reaches through the \<^verbatim>\<open>fetchUpdate\<close> closure it was given; the plain
  \<^verbatim>\<open>fetch\<close> goes through the \<^verbatim>\<open>fetch\<close> closure; \<^verbatim>\<open>pageInfo\<close> is derived from the
  observer it was given.
\<close>

definition handlerObserver :: "handlers \<Rightarrow> string \<Rightarrow> ref option" where
  "handlerObserver h m =
     (if m = ''loadNextPage'' \<or> m = ''loadPreviousPage''
        then Some (capturedObserver (hc_fetchUpdate (configOf h)))
      else if m = ''fetch'' then Some (capturedObserver (hc_fetch (configOf h)))
      else if m = ''pageInfo'' then Some (hc_observer (configOf h))
      else None)"

text \<open>The observer that a member of a handle works on, if it works on one.\<close>

fun observerOf :: "member \<Rightarrow> ref option" where
  "observerOf kindMember = None"
| "observerOf (dataMember store) = Some store"
| "observerOf (subscribeMember store h) = Some store"
| "observerOf loadingMember = None"
| "observerOf (handlerMember h m) = handlerObserver h m"
| "observerOf (observerMember observer key) = Some observer"

text \<open>\<^verbatim>\<open>handle.key\<close>, and the observer behind it.\<close>

definition memberObserver :: "handle \<Rightarrow> string \<Rightarrow> ref option" where
  "memberObserver h key = (case map_of h key of None \<Rightarrow> None | Some m \<Rightarrow> observerOf m)"

definition exposes :: "handle \<Rightarrow> string \<Rightarrow> bool" where
  "exposes h key = (map_of h key \<noteq> None)"

subsection \<open>The four \<^verbatim>\<open>get\<close> methods\<close>

definition storeHandlers :: "fragmentStore \<Rightarrow> ref \<Rightarrow> handlers" where
  "storeHandlers this observer =
     cursorHandlers
       \<lparr> hc_artifact = paginationArtifact this,
         hc_fetchUpdate = CursorFetchUpdate observer,
         hc_fetch = CursorFetch observer,
         hc_observer = observer,
         hc_storeName = name this \<rparr>"

definition FragmentStoreCursor_get ::
  "'fn env \<Rightarrow> fragmentStore \<Rightarrow> jsobj option \<Rightarrow> 'fn world \<Rightarrow> handle \<times> 'fn world" where
  "FragmentStoreCursor_get env this initialValue w =
     (let created = clientObserve env (paginationArtifact this) w;
          store = fst created;
          handlers = storeHandlers this store
      in (spreadInto []
            [ (''kind'', kindMember),
              (''data'', dataMember store),
              (''subscribe'', subscribeMember store handlers),
              (''loading'', loadingMember),
              (''fetch'', handlerMember handlers ''fetch''),
              (''pageInfo'', handlerMember handlers ''pageInfo'') ],
          snd created))"

definition FragmentStoreForwardCursor_get ::
  "'fn env \<Rightarrow> fragmentStore \<Rightarrow> jsobj option \<Rightarrow> 'fn world \<Rightarrow> handle \<times> 'fn world" where
  "FragmentStoreForwardCursor_get env this initialValue w =
     (let super = FragmentStoreCursor_get env this initialValue w;
          parent = fst super;
          created = clientObserve env (paginationArtifact this) (snd super);
          observer = fst created;
          handlers = storeHandlers this observer
      in (spreadInto (spreadInto [] parent)
            [ (''loadNextPage'', handlerMember handlers ''loadNextPage'') ],
          snd created))"

definition FragmentStoreBackwardCursor_get ::
  "'fn env \<Rightarrow> fragmentStore \<Rightarrow> jsobj option \<Rightarrow> 'fn world \<Rightarrow> handle \<times> 'fn world" where
  "FragmentStoreBackwardCursor_get env this initialValue w =
     (let super = FragmentStoreCursor_get env this initialValue w;
          parent = fst super;
          created = clientObserve env (paginationArtifact this) (snd super);
          observer = fst created;
          handlers = storeHandlers this observer
      in (spreadInto (spreadInto [] parent)
            [ (''loadPreviousPage'', handlerMember handlers ''loadPreviousPage'') ],
          snd created))"

definition FragmentStoreOffset_get ::
  "'fn env \<Rightarrow> fragmentStore \<Rightarrow> jsobj option \<Rightarrow> 'fn world \<Rightarrow> handle \<times> 'fn world" where
  "FragmentStoreOffset_get env this initialValue w =
     (let created = clientObserve env (paginationArtifact this) w;
          observer = fst created;
          handlers = offsetHandlers
            \<lparr> hc_artifact = paginationArtifact this,
              hc_fetchUpdate = OffsetFetchUpdate observer,
              hc_fetch = OffsetFetch observer,
              hc_observer = observer,
              hc_storeName = name this \<rparr>
      in (spreadInto
            (spreadInto [] (map (\<lambda>key. (key, observerMember observer key)) (observerOwnKeys env)))
            [ (''kind'', kindMember),
              (''fetch'', handlerMember handlers ''fetch''),
              (''loadNextPage'', handlerMember handlers ''loadNextPage'') ],
          snd created))"

section \<open>Concrete inputs\<close>

text \<open>
  A type configuration with the entry \<^verbatim>\<open>User: { keys: ["id"] }\<close>, one with the entry
  \<^verbatim>\<open>User: { keys: ["id"], resolve: { arguments: (v) => v && { userID: v.id } } }\<close>, whose
  resolver returns the falsy \<^verbatim>\<open>null\<close> for a cached value of \<^verbatim>\<open>null\<close>, and one with no entry
  for \<^verbatim>\<open>User\<close>.
\<close>

definition userKeysConfig :: configFile where
  "userKeysConfig = \<lparr> types = Some [''User'' \<mapsto> \<lparr> keys = [''id''], resolve = None \<rparr>] \<rparr>"

definition userIDResolver :: "jsobj option \<Rightarrow> jsobj option" where
  "userIDResolver val =
     (case val of None \<Rightarrow> None | Some obj \<Rightarrow> Some [(''userID'', getProp obj ''id'')])"

definition userResolverConfig :: configFile where
  "userResolverConfig =
     \<lparr> types = Some [''User'' \<mapsto>
         \<lparr> keys = [''id''], resolve = Some \<lparr> arguments = Some userIDResolver \<rparr> \<rparr>] \<rparr>"

definition noUserConfig :: configFile where
  "noUserConfig = \<lparr> types = Some [''Ghost'' \<mapsto> \<lparr> keys = [''name''], resolve = None \<rparr>] \<rparr>"

text \<open>A pagination artifact for the type \<^verbatim>\<open>User\<close> and a store for it.\<close>

definition friendsStore :: fragmentStore where
  "friendsStore =
     \<lparr> paginationArtifact =
         \<lparr> artifact_name = ''UserFriends_Pagination_Query'',
           refetch = Some \<lparr> targetType = ''User'' \<rparr> \<rparr>,
       name = ''UserFriendsStore'' \<rparr>"

text \<open>
  An environment for each configuration: a client with the standard pipeline, and
  observers that hold the cached value \<^verbatim>\<open>{ id: "42" }\<close>.
\<close>

definition standardClient :: "nat houdiniClient" where
  "standardClient =
     \<lparr> client_url = ''https://api.test/graphql'',
       client_plugins = [inputsPlugin, queryPlugin, mutationPlugin, fetchPlugin None] \<rparr>"

definition envWith :: "configFile \<Rightarrow> nat env" where
  "envWith config =
     \<lparr> getCurrentConfig = config,
       getCurrentClient = standardClient,
       siteURL = ''https://houdinigraphql.com'',
       keyFieldsForType = keyFieldsForType_spec,
       newObserverValue = \<lparr> data = Some [(''id'', JStr ''42'')], fetching = False \<rparr>,
       observerOwnKeys = [] \<rparr>"

text \<open>A world with one observer, number 0, made for the store's artifact.\<close>

definition emptyObserver :: "nat documentObserver" where
  "emptyObserver =
     \<lparr> obs_args = observe standardClient
         \<lparr> oa_artifact = paginationArtifact friendsStore, oa_cache = None \<rparr>,
       obs_value = \<lparr> data = None, fetching = False \<rparr>,
       obs_sent = [] \<rparr>"

definition emptyWorld :: "nat world" where
  "emptyWorld = \<lparr> heap = (\<lambda>r. emptyObserver), allocated = 0, unhandledRejections = [] \<rparr>"

definition oneObserver :: "configFile \<Rightarrow> nat world" where
  "oneObserver config =
     snd (clientObserve (envWith config) (paginationArtifact friendsStore) emptyWorld)"

text \<open>Arguments of a page load: \<^verbatim>\<open>{ variables: { first: 10, after: "c7" } }\<close>.\<close>

definition nextPageArgs :: "sendParams option" where
  "nextPageArgs =
     Some \<lparr> variables = Some [(''first'', JNum 10), (''after'', JStr ''c7'')],
            cacheParams = None, otherParams = [] \<rparr>"

text \<open>
  The same environment with observers that hold no data yet (\<^verbatim>\<open>data: null\<close>), and a world
  with one such observer.
\<close>

definition nullValueEnv :: "nat env" where
  "nullValueEnv = (envWith userKeysConfig)\<lparr> newObserverValue := \<lparr> data = None, fetching = False \<rparr> \<rparr>"

definition nullValueWorld :: "nat world" where
  "nullValueWorld =
     snd (clientObserve nullValueEnv (paginationArtifact friendsStore) emptyWorld)"

text \<open>
  Arguments of a reload that carry cache parameters:
  \<^verbatim>\<open>{ variables: { first: 10 }, cacheParams: { applyUpdates: true } }\<close>.
\<close>

definition reloadArgs :: "sendParams option" where
  "reloadArgs =
     Some \<lparr> variables = Some [(''first'', JNum 10)],
            cacheParams = Some \<lparr> applyUpdates = Some True \<rparr>, otherParams = [] \<rparr>"


text \<open>Constructor arguments: both members, a plugin list, a pipeline function.\<close>


definition bothArgs :: "nat constructorArgs" where
  "bothArgs =
     \<lparr> url = ''https://api.test/graphql'', fetchParams = None,
       plugins = Some [], pipeline = Some (\<lambda>u. [queryPlugin, fetchPlugin None]) \<rparr>"

definition pluginArgs :: "nat constructorArgs" where
  "pluginArgs =
     \<lparr> url = ''https://api.test/graphql'', fetchParams = Some 7,
       plugins = Some [otherPlugin 1, otherPlugin 2], pipeline = None \<rparr>"

definition pipelineArgs :: "nat constructorArgs" where
  "pipelineArgs =
     \<lparr> url = ''https://api.test/graphql'', fetchParams = Some 7,
       plugins = None, pipeline = Some (\<lambda>u. [queryPlugin, otherPlugin 1]) \<rparr>"

section \<open>Lemmas about the client\<close>




section \<open>Lemmas about objects\<close>

text \<open>Assigning a property changes the lookup at that key only and keeps the keys distinct.\<close>

lemma map_of_setProp: "map_of (setProp ps k v) = (map_of ps)(k \<mapsto> v)"
  by (induction ps) (auto simp: fun_eq_iff)

lemma keys_setProp: "fst ` set (setProp ps k v) = insert k (fst ` set ps)"
  by (induction ps) auto

lemma distinct_setProp:
  "distinct (map fst ps) \<Longrightarrow> distinct (map fst (setProp ps k v))"
proof (induction ps)
  case Nil
  then show ?case by simp
next
  case (Cons p ps)
  then show ?case
    using keys_setProp [of ps k v] by (auto simp: image_iff)
qed

lemma setProp_fresh: "k \<notin> fst ` set ps \<Longrightarrow> setProp ps k v = ps @ [(k, v)]"
  by (induction ps) auto

text \<open>
  A spread into a copy: the later operand wins at a key that both have, and an object
  whose keys are distinct is copied as it is.
\<close>

lemma map_of_spreadInto: "map_of (spreadInto a b) = map_of a ++ map_of (rev b)"
  unfolding spreadInto_def
proof (induction b arbitrary: a)
  case Nil
  then show ?case by simp
next
  case (Cons p b)
  have "map_of (setProp a (fst p) (snd p)) ++ map_of (rev b)
        = map_of a ++ (map_of (rev b @ [p]))"
    by (cases p) (simp add: map_of_setProp fun_eq_iff map_add_def split: option.splits)
  with Cons show ?case by simp
qed

lemma keys_spreadInto: "fst ` set (spreadInto a b) = fst ` set a \<union> fst ` set b"
  unfolding spreadInto_def
  by (induction b arbitrary: a) (auto simp: keys_setProp)

lemma distinct_spreadInto:
  "distinct (map fst a) \<Longrightarrow> distinct (map fst (spreadInto a b))"
  unfolding spreadInto_def
  by (induction b arbitrary: a) (simp_all add: distinct_setProp)

lemma spreadInto_fresh:
  "distinct (map fst (a @ b)) \<Longrightarrow> spreadInto a b = a @ b"
  unfolding spreadInto_def
proof (induction b arbitrary: a)
  case Nil
  then show ?case by simp
next
  case (Cons p b)
  from Cons.prems have fresh: "fst p \<notin> fst ` set a" by auto
  from Cons.prems have "distinct (map fst ((a @ [p]) @ b))" by auto
  from Cons.IH [OF this] fresh show ?case
    by (cases p) (simp add: setProp_fresh)
qed

lemma spreadInto_copy: "distinct (map fst b) \<Longrightarrow> spreadInto [] b = b"
  using spreadInto_fresh [of "[]" b] by simp

text \<open>The entries read off a cached object, and the object made of them.\<close>

lemma keyEntries_object:
  "keyEntries (Some obj) ks = Inr (map (\<lambda>key. (key, getProp obj key)) ks)"
  by (induction ks) simp_all

lemma keyEntries_null: "keyEntries None ks = (if ks = [] then Inr [] else Inl TypeError)"
  by (cases ks) simp_all

lemma map_of_key_entries:
  "map_of (rev (map (\<lambda>key. (key, f key)) ks)) k = (if k \<in> set ks then Some (f k) else None)"
  by (induction ks) (auto simp: map_add_def split: option.splits)

lemma fromEntries_lookup:
  "map_of (fromEntries (map (\<lambda>key. (key, f key)) ks)) k = (if k \<in> set ks then Some (f k) else None)"
  by (simp add: fromEntries_def map_of_spreadInto map_of_key_entries)

lemma fromEntries_copy: "spreadInto [] (fromEntries es) = fromEntries es"
  by (simp add: fromEntries_def spreadInto_copy distinct_spreadInto)

section \<open>Lemmas about the stores\<close>

text \<open>The definitions that a concrete run unfolds.\<close>

lemmas closure_defs =
  storeHandlers_fetchUpdate_def storeHandlers_fetch_def offset_fetch_def offset_fetchUpdate_def

lemmas input_defs =
  envWith_def userKeysConfig_def userResolverConfig_def noUserConfig_def friendsStore_def
  standardClient_def emptyWorld_def emptyObserver_def oneObserver_def nextPageArgs_def
  userIDResolver_def

lemmas eval_defs =
  queryVariables_def queryVariables_body_def getStore_def targetTypeOf_def orEmpty_def
  resolveArguments_def keyFieldsForType_spec_def missingTypeMessage_def fromEntries_def
  spreadInto_def getProp_def async_def clientObserve_def newDocumentObserver_def observe_def
  send_def dropPromise_def spreadArgs_def argsVariables_def spreadBoth_def Let_def

text \<open>
  With a cached value of \<^verbatim>\<open>null\<close>, no resolver and at least one key field, the body of
  \<^verbatim>\<open>queryVariables\<close> throws a \<^verbatim>\<open>TypeError\<close>, so the promise is rejected.
\<close>

lemma queryVariables_null_value:
  assumes "types (getCurrentConfig env) = Some table"
      and "table (orEmpty (targetTypeOf this)) = Some tc"
      and "resolveArguments tc = None"
      and "data (getStore w store) = None"
      and "keyFieldsForType env (getCurrentConfig env) (orEmpty (targetTypeOf this)) \<noteq> []"
  shows "queryVariables env this w store = Rejected TypeError"
  using assms
  by (simp add: queryVariables_def queryVariables_body_def async_def keyEntries_null)

text \<open>
  Whatever \<^verbatim>\<open>queryVariables\<close> yields, the variables that a closure sends are a copy of
  the caller's variables: the promise adds no property.
\<close>

lemma closure_variables:
  "\<exists>p. fst (storeHandlers_fetchUpdate env this observer args w) = Fulfilled (SendPromise observer p)
       \<and> variables p = Some (spreadInto [] (ownEnumerableProps (argsVariables args)))"
  "\<exists>p. fst (storeHandlers_fetch env this observer args w) = Fulfilled (SendPromise observer p)
       \<and> variables p = Some (spreadInto [] (ownEnumerableProps (argsVariables args)))"
  "\<exists>p. fst (offset_fetch env this observer args w) = Fulfilled (SendPromise observer p)
       \<and> variables p = Some (spreadInto [] (ownEnumerableProps (argsVariables args)))"
  "\<exists>p. fst (offset_fetchUpdate env this observer args w) = Fulfilled (SendPromise observer p)
       \<and> variables p = Some (spreadInto [] (ownEnumerableProps (argsVariables args)))"
  by (simp_all add: closure_defs send_def async_def spreadBoth_def spreadInto_def Let_def)

text \<open>A call of \<^verbatim>\<open>send\<close> is recorded on its observer; dropping a promise records none.\<close>

lemma sent_after_send:
  "obs_sent (heap (snd (send observer p w)) observer) = obs_sent (heap w observer) @ [p]"
  by (simp add: send_def)

lemma sent_after_dropPromise:
  "obs_sent (heap (dropPromise q w) observer) = obs_sent (heap w observer)"
  by (cases q) (simp_all add: dropPromise_def)

text \<open>Each \<^verbatim>\<open>observe\<close> makes the next instance.\<close>

lemma clientObserve_ref: "fst (clientObserve env artifact w) = allocated w"
  by (simp add: clientObserve_def newDocumentObserver_def)

lemma clientObserve_allocated:
  "allocated (snd (clientObserve env artifact w)) = Suc (allocated w)"
  by (simp add: clientObserve_def newDocumentObserver_def)

text \<open>
  Every reference to an observer that \<^verbatim>\<open>storeHandlers\<close> gives to \<^verbatim>\<open>cursorHandlers\<close> is
  the observer it is called with.
\<close>

lemma storeHandlers_observers:
  "hc_observer (configOf (storeHandlers this observer)) = observer"
  "capturedObserver (hc_fetchUpdate (configOf (storeHandlers this observer))) = observer"
  "capturedObserver (hc_fetch (configOf (storeHandlers this observer))) = observer"
  by (simp_all add: storeHandlers_def)

text \<open>The handles that the \<^verbatim>\<open>get\<close> methods return.\<close>

lemma FragmentStoreCursor_get_handle:
  "fst (FragmentStoreCursor_get env this initialValue w) =
     [ (''kind'', kindMember),
       (''data'', dataMember (allocated w)),
       (''subscribe'', subscribeMember (allocated w) (storeHandlers this (allocated w))),
       (''loading'', loadingMember),
       (''fetch'', handlerMember (storeHandlers this (allocated w)) ''fetch''),
       (''pageInfo'', handlerMember (storeHandlers this (allocated w)) ''pageInfo'') ]"
  by (simp add: FragmentStoreCursor_get_def Let_def clientObserve_ref spreadInto_def)

lemma FragmentStoreCursor_get_allocated:
  "allocated (snd (FragmentStoreCursor_get env this initialValue w)) = Suc (allocated w)"
  by (simp add: FragmentStoreCursor_get_def Let_def clientObserve_allocated)

lemma FragmentStoreForwardCursor_get_handle:
  "fst (FragmentStoreForwardCursor_get env this initialValue w) =
     [ (''kind'', kindMember),
       (''data'', dataMember (allocated w)),
       (''subscribe'', subscribeMember (allocated w) (storeHandlers this (allocated w))),
       (''loading'', loadingMember),
       (''fetch'', handlerMember (storeHandlers this (allocated w)) ''fetch''),
       (''pageInfo'', handlerMember (storeHandlers this (allocated w)) ''pageInfo''),
       (''loadNextPage'',
          handlerMember (storeHandlers this (Suc (allocated w))) ''loadNextPage'') ]"
  by (simp add: FragmentStoreForwardCursor_get_def Let_def clientObserve_ref
        FragmentStoreCursor_get_handle FragmentStoreCursor_get_allocated spreadInto_def)

lemma FragmentStoreBackwardCursor_get_handle:
  "fst (FragmentStoreBackwardCursor_get env this initialValue w) =
     [ (''kind'', kindMember),
       (''data'', dataMember (allocated w)),
       (''subscribe'', subscribeMember (allocated w) (storeHandlers this (allocated w))),
       (''loading'', loadingMember),
       (''fetch'', handlerMember (storeHandlers this (allocated w)) ''fetch''),
       (''pageInfo'', handlerMember (storeHandlers this (allocated w)) ''pageInfo''),
       (''loadPreviousPage'',
          handlerMember (storeHandlers this (Suc (allocated w))) ''loadPreviousPage'') ]"
  by (simp add: FragmentStoreBackwardCursor_get_def Let_def clientObserve_ref
        FragmentStoreCursor_get_handle FragmentStoreCursor_get_allocated spreadInto_def)

lemma FragmentStoreForwardCursor_get_allocated:
  "allocated (snd (FragmentStoreForwardCursor_get env this initialValue w))
     = Suc (Suc (allocated w))"
  by (simp add: FragmentStoreForwardCursor_get_def Let_def clientObserve_allocated
        FragmentStoreCursor_get_allocated)

lemma FragmentStoreBackwardCursor_get_allocated:
  "allocated (snd (FragmentStoreBackwardCursor_get env this initialValue w))
     = Suc (Suc (allocated w))"
  by (simp add: FragmentStoreBackwardCursor_get_def Let_def clientObserve_allocated
        FragmentStoreCursor_get_allocated)

lemma FragmentStoreOffset_get_allocated:
  "allocated (snd (FragmentStoreOffset_get env this initialValue w)) = Suc (allocated w)"
  by (simp add: FragmentStoreOffset_get_def Let_def clientObserve_allocated)

lemma offset_handle_keys:
  "fst ` set (fst (FragmentStoreOffset_get env this initialValue w))
     = set (observerOwnKeys env) \<union> {''kind'', ''fetch'', ''loadNextPage''}"
  by (auto simp: FragmentStoreOffset_get_def Let_def keys_spreadInto image_iff)

lemma offset_handle_lookup:
  "map_of (fst (FragmentStoreOffset_get env this initialValue w)) key =
     (if key = ''loadNextPage'' then
        Some (handlerMember
          (offsetHandlers
             \<lparr> hc_artifact = paginationArtifact this,
               hc_fetchUpdate = OffsetFetchUpdate (allocated w),
               hc_fetch = OffsetFetch (allocated w),
               hc_observer = allocated w,
               hc_storeName = name this \<rparr>) ''loadNextPage'')
      else if key = ''fetch'' then
        Some (handlerMember
          (offsetHandlers
             \<lparr> hc_artifact = paginationArtifact this,
               hc_fetchUpdate = OffsetFetchUpdate (allocated w),
               hc_fetch = OffsetFetch (allocated w),
               hc_observer = allocated w,
               hc_storeName = name this \<rparr>) ''fetch'')
      else if key = ''kind'' then Some kindMember
      else if key \<in> set (observerOwnKeys env) then Some (observerMember (allocated w) key)
      else None)"
  by (simp add: FragmentStoreOffset_get_def Let_def clientObserve_ref map_of_spreadInto
        map_of_key_entries map_add_def)

text \<open>
  In every world, a cursor handle's \<^verbatim>\<open>subscribe\<close> and \<^verbatim>\<open>fetch\<close> work on the observer
  that \<^verbatim>\<open>FragmentStoreCursor.get\<close> creates, and its page-navigation member on the one
  that the subclass creates after it.
\<close>

lemma cursor_handles_use_two_observers:
  "memberObserver (fst (FragmentStoreForwardCursor_get env this initialValue w)) ''subscribe''
     = Some (allocated w)
   \<and> memberObserver (fst (FragmentStoreForwardCursor_get env this initialValue w)) ''fetch''
     = Some (allocated w)
   \<and> memberObserver (fst (FragmentStoreForwardCursor_get env this initialValue w)) ''loadNextPage''
     = Some (Suc (allocated w))
   \<and> memberObserver (fst (FragmentStoreBackwardCursor_get env this initialValue w)) ''subscribe''
     = Some (allocated w)
   \<and> memberObserver (fst (FragmentStoreBackwardCursor_get env this initialValue w)) ''fetch''
     = Some (allocated w)
   \<and> memberObserver (fst (FragmentStoreBackwardCursor_get env this initialValue w))
        ''loadPreviousPage''
     = Some (Suc (allocated w))"
  by (simp add: FragmentStoreForwardCursor_get_handle FragmentStoreBackwardCursor_get_handle
        memberObserver_def handlerObserver_def storeHandlers_def)

section \<open>The properties\<close>

text \<open>
  C1. A construction call that is given both a \<^verbatim>\<open>plugins\<close> list and a \<^verbatim>\<open>pipeline\<close>
  function throws the configuration error: the call yields the error and no client
  instance, so there is nothing to call \<^verbatim>\<open>observe\<close> on.
\<close>

theorem C1_both_plugins_and_pipeline_throws:
  assumes "plugins args = Some ps" and "pipeline args = Some p"
  shows "HoudiniClient injected args =
           Inl (Error ''A client cannot be given a pipeline and a list of plugins at the same time.'')
         \<and> (\<forall>c. HoudiniClient injected args \<noteq> Inr c)"
  using assms by (simp add: HoudiniClient_def)

theorem C1_both_plugins_and_pipeline_throws_witness:
  "plugins bothArgs = Some []
   \<and> pipeline bothArgs = Some (\<lambda>u. [queryPlugin, fetchPlugin None])
   \<and> HoudiniClient [otherPlugin 9] bothArgs =
       Inl (Error ''A client cannot be given a pipeline and a list of plugins at the same time.'')"
  using C1_both_plugins_and_pipeline_throws
          [of bothArgs "[]" "\<lambda>u. [queryPlugin, fetchPlugin None]" "[otherPlugin 9]"]
  by (simp add: bothArgs_def)

text \<open>
  C2. Each of the four closures is to send the identity variables of \<^verbatim>\<open>queryVariables\<close>
  merged with the caller's variables. The code spreads the promise that
  \<^verbatim>\<open>queryVariables\<close> returns, not the object it is fulfilled with, and a promise has no
  property to copy. For the store with \<^verbatim>\<open>keys: ["id"]\<close> and the cached value
  \<^verbatim>\<open>{ id: "42" }\<close>, \<^verbatim>\<open>queryVariables\<close> is fulfilled with \<^verbatim>\<open>{ id: "42" }\<close>, and each closure,
  called with \<^verbatim>\<open>{ first: 10, after: "c7" }\<close>, sends exactly these two variables: \<^verbatim>\<open>id\<close>
  is not among them.
\<close>

theorem C2_identity_variables_not_sent:
  "queryVariables (envWith userKeysConfig) friendsStore (oneObserver userKeysConfig) 0
     = Fulfilled [(''id'', JStr ''42'')]
   \<and> obs_sent (heap (snd (storeHandlers_fetchUpdate (envWith userKeysConfig) friendsStore 0
                            nextPageArgs (oneObserver userKeysConfig))) 0)
     = [\<lparr> variables = Some [(''first'', JNum 10), (''after'', JStr ''c7'')],
          cacheParams = Some \<lparr> applyUpdates = Some True \<rparr>,
          otherParams = [] \<rparr>]
   \<and> obs_sent (heap (snd (storeHandlers_fetch (envWith userKeysConfig) friendsStore 0
                            nextPageArgs (oneObserver userKeysConfig))) 0)
     = [\<lparr> variables = Some [(''first'', JNum 10), (''after'', JStr ''c7'')],
          cacheParams = None,
          otherParams = [] \<rparr>]
   \<and> obs_sent (heap (snd (offset_fetch (envWith userKeysConfig) friendsStore 0
                            nextPageArgs (oneObserver userKeysConfig))) 0)
     = [\<lparr> variables = Some [(''first'', JNum 10), (''after'', JStr ''c7'')],
          cacheParams = None,
          otherParams = [] \<rparr>]
   \<and> obs_sent (heap (snd (offset_fetchUpdate (envWith userKeysConfig) friendsStore 0
                            nextPageArgs (oneObserver userKeysConfig))) 0)
     = [\<lparr> variables = Some [(''first'', JNum 10), (''after'', JStr ''c7'')],
          cacheParams = Some \<lparr> applyUpdates = Some True \<rparr>,
          otherParams = [] \<rparr>]
   \<and> getProp [(''first'', JNum 10), (''after'', JStr ''c7'')] ''id'' = JUndefined"
  by (simp add: closure_defs input_defs eval_defs)

text \<open>
  C3. With no type configuration for the artifact's target type a page fetch is to fail
  before anything is sent. In the code the error is thrown inside the \<^verbatim>\<open>async\<close>
  \<^verbatim>\<open>queryVariables\<close>, so it only rejects the promise, which the closure spreads and
  drops. For a configuration with no entry for \<^verbatim>\<open>User\<close>, the offset store's
  \<^verbatim>\<open>fetchUpdate\<close> returns the promise of \<^verbatim>\<open>send\<close>, \<^verbatim>\<open>send\<close> has been called once, and
  the error with the diagnostic is left as an unhandled rejection.
\<close>

theorem C3_missing_type_config_still_sends:
  "queryVariables (envWith noUserConfig) friendsStore (oneObserver noUserConfig) 0
     = Rejected (Error
         ''Missing type refetch configuration for User. For more information, see https://houdinigraphql.com/guides/pagination#paginated-fragments'')
   \<and> fst (offset_fetchUpdate (envWith noUserConfig) friendsStore 0 nextPageArgs
            (oneObserver noUserConfig))
     = Fulfilled (SendPromise 0
         \<lparr> variables = Some [(''first'', JNum 10), (''after'', JStr ''c7'')],
           cacheParams = Some \<lparr> applyUpdates = Some True \<rparr>,
           otherParams = [] \<rparr>)
   \<and> obs_sent (heap (oneObserver noUserConfig) 0) = []
   \<and> obs_sent (heap (snd (offset_fetchUpdate (envWith noUserConfig) friendsStore 0
                            nextPageArgs (oneObserver noUserConfig))) 0)
     = [\<lparr> variables = Some [(''first'', JNum 10), (''after'', JStr ''c7'')],
          cacheParams = Some \<lparr> applyUpdates = Some True \<rparr>,
          otherParams = [] \<rparr>]
   \<and> unhandledRejections (snd (offset_fetchUpdate (envWith noUserConfig) friendsStore 0
                            nextPageArgs (oneObserver noUserConfig)))
     = [Error
         ''Missing type refetch configuration for User. For more information, see https://houdinigraphql.com/guides/pagination#paginated-fragments'']"
  by (simp add: closure_defs input_defs eval_defs)




text \<open>
  C5. Without a \<^verbatim>\<open>pipeline\<close>, the list is, in order: the input-coercion plugin; the
  fetch-parameter plugin exactly when \<^verbatim>\<open>fetchParams\<close> is given; \<^verbatim>\<open>queryPlugin\<close>;
  \<^verbatim>\<open>mutationPlugin\<close>; the caller's plugins in their order; the injected plugins; and the
  fetch plugin last.
\<close>

theorem C5_standard_pipeline_order:
  assumes "pipeline args = None"
  shows "HoudiniClient injected args =
           Inr \<lparr> client_url = url args,
                 client_plugins =
                   [inputsPlugin]
                   @ (case fetchParams args of None \<Rightarrow> [] | Some fp \<Rightarrow> [fetchParamsPlugin fp])
                   @ [queryPlugin, mutationPlugin]
                   @ (case plugins args of None \<Rightarrow> [] | Some ps \<Rightarrow> ps)
                   @ injected
                   @ [fetchPlugin None] \<rparr>"
  using assms by (simp add: HoudiniClient_def concat_js_def)

theorem C5_standard_pipeline_order_witness:
  "pipeline pluginArgs = None
   \<and> HoudiniClient [otherPlugin 9] pluginArgs =
       Inr \<lparr> client_url = ''https://api.test/graphql'',
             client_plugins =
               [inputsPlugin, fetchParamsPlugin 7, queryPlugin, mutationPlugin,
                otherPlugin 1, otherPlugin 2, otherPlugin 9, fetchPlugin None] \<rparr>"
proof -
  have h: "pipeline pluginArgs = None" by (simp add: pluginArgs_def)
  from C5_standard_pipeline_order [OF h, of "[otherPlugin 9]"] h
  show ?thesis by (simp add: pluginArgs_def)
qed

text \<open>
  C6, as the code has it. With a \<^verbatim>\<open>pipeline\<close> function (and hence no \<^verbatim>\<open>plugins\<close>), the
  list is the input-coercion plugin, the fetch-parameter plugin when \<^verbatim>\<open>fetchParams\<close> is
  given, and then the plugins that \<^verbatim>\<open>pipeline()\<close> returns, with nothing after them:
  neither \<^verbatim>\<open>queryPlugin\<close>/\<^verbatim>\<open>mutationPlugin\<close>, the injected plugins nor a fetch plugin
  is added.
\<close>

theorem C6_custom_pipeline_verbatim:
  assumes "pipeline args = Some p" and "plugins args = None"
  shows "HoudiniClient injected args =
           Inr \<lparr> client_url = url args,
                 client_plugins =
                   [inputsPlugin]
                   @ (case fetchParams args of None \<Rightarrow> [] | Some fp \<Rightarrow> [fetchParamsPlugin fp])
                   @ p () \<rparr>"
  using assms by (simp add: HoudiniClient_def concat_js_def)

theorem C6_custom_pipeline_verbatim_witness:
  "pipeline pipelineArgs = Some (\<lambda>u. [queryPlugin, otherPlugin 1])
   \<and> plugins pipelineArgs = None
   \<and> HoudiniClient [otherPlugin 9] pipelineArgs =
       Inr \<lparr> client_url = ''https://api.test/graphql'',
             client_plugins = [inputsPlugin, fetchParamsPlugin 7, queryPlugin, otherPlugin 1] \<rparr>"
proof -
  have h1: "pipeline pipelineArgs = Some (\<lambda>u. [queryPlugin, otherPlugin 1])"
    and h2: "plugins pipelineArgs = None"
    by (simp_all add: pipelineArgs_def)
  from C6_custom_pipeline_verbatim [OF h1 h2, of "[otherPlugin 9]"] h1 h2
  show ?thesis by (simp add: pipelineArgs_def)
qed

text \<open>
  C6 with a fetch plugin appended last does not hold: for the arguments
  \<open>pipelineArgs\<close>, whose pipeline returns \<^verbatim>\<open>[queryPlugin, p1]\<close>, the client is
  constructed and the last plugin of its list is \<^verbatim>\<open>p1\<close>, which is no fetch plugin.
\<close>

theorem C6_fetchPlugin_not_appended:
  "HoudiniClient [otherPlugin 9] pipelineArgs =
     Inr \<lparr> client_url = ''https://api.test/graphql'',
           client_plugins = [inputsPlugin, fetchParamsPlugin 7, queryPlugin, otherPlugin 1] \<rparr>
   \<and> last (client_plugins (projr (HoudiniClient [otherPlugin 9] pipelineArgs))) = otherPlugin 1
   \<and> \<not> isFetchPlugin (last (client_plugins (projr (HoudiniClient [otherPlugin 9] pipelineArgs))))"
  by (simp add: HoudiniClient_def pipelineArgs_def concat_js_def)

text \<open>
  C7, for a cached value that is an object. When the configuration has an entry for the
  target type, the promise that \<^verbatim>\<open>queryVariables\<close> returns is fulfilled: with the object
  that the entry's argument resolver returns for the cached value when there is a
  resolver (with \<^verbatim>\<open>{}\<close> when the resolver returns nothing), and otherwise, for a cached
  value that is not \<^verbatim>\<open>null\<close>, with the object that has exactly the key fields of the type,
  each with the value read off the cached object. With \<^verbatim>\<open>keys: ["id"]\<close>, the cached value
  \<^verbatim>\<open>{ id: "42" }\<close> and no resolver this is \<^verbatim>\<open>{ id: "42" }\<close>.
\<close>

theorem C7_queryVariables_resolves:
  assumes "types (getCurrentConfig env) = Some table"
      and "table (orEmpty (targetTypeOf this)) = Some tc"
  shows "(\<forall>resolver vars.
            resolveArguments tc = Some resolver \<longrightarrow>
            resolver (data (getStore w store)) = Some vars \<longrightarrow>
            distinct (map fst vars) \<longrightarrow>
            queryVariables env this w store = Fulfilled vars)
       \<and> (\<forall>resolver.
            resolveArguments tc = Some resolver \<longrightarrow>
            resolver (data (getStore w store)) = None \<longrightarrow>
            queryVariables env this w store = Fulfilled [])
       \<and> (\<forall>obj.
            resolveArguments tc = None \<longrightarrow>
            data (getStore w store) = Some obj \<longrightarrow>
            (\<exists>vars.
               queryVariables env this w store = Fulfilled vars
               \<and> vars = fromEntries (map (\<lambda>key. (key, getProp obj key))
                          (keyFieldsForType env (getCurrentConfig env) (orEmpty (targetTypeOf this))))
               \<and> (\<forall>key. map_of vars key =
                     (if key \<in> set (keyFieldsForType env (getCurrentConfig env)
                                     (orEmpty (targetTypeOf this)))
                      then Some (getProp obj key) else None))))"
  using assms
  by (simp add: queryVariables_def queryVariables_body_def async_def spreadInto_copy
        keyEntries_object fromEntries_copy fromEntries_lookup)

theorem C7_queryVariables_resolves_witness:
  "types (getCurrentConfig (envWith userKeysConfig))
     = Some [''User'' \<mapsto> \<lparr> keys = [''id''], resolve = None \<rparr>]
   \<and> data (getStore (oneObserver userKeysConfig) 0) = Some [(''id'', JStr ''42'')]
   \<and> queryVariables (envWith userKeysConfig) friendsStore (oneObserver userKeysConfig) 0
     = Fulfilled [(''id'', JStr ''42'')]
   \<and> queryVariables (envWith userResolverConfig) friendsStore (oneObserver userResolverConfig) 0
     = Fulfilled [(''userID'', JStr ''42'')]"
proof -
  let ?tc = "\<lparr> keys = [''id''], resolve = None \<rparr>"
  let ?obj = "[(''id'', JStr ''42'')]"
  have t1: "types (getCurrentConfig (envWith userKeysConfig)) = Some [''User'' \<mapsto> ?tc]"
    by (simp add: envWith_def userKeysConfig_def)
  have t2: "[''User'' \<mapsto> ?tc] (orEmpty (targetTypeOf friendsStore)) = Some ?tc"
    by (simp add: orEmpty_def targetTypeOf_def friendsStore_def)
  have r: "resolveArguments ?tc = None" by (simp add: resolveArguments_def)
  have d: "data (getStore (oneObserver userKeysConfig) 0) = Some ?obj"
    by (simp add: input_defs eval_defs)
  from C7_queryVariables_resolves [OF t1 t2, of "oneObserver userKeysConfig" 0] r d
  have "queryVariables (envWith userKeysConfig) friendsStore (oneObserver userKeysConfig) 0
     = Fulfilled (fromEntries (map (\<lambda>key. (key, getProp ?obj key))
          (keyFieldsForType (envWith userKeysConfig) (getCurrentConfig (envWith userKeysConfig))
             (orEmpty (targetTypeOf friendsStore)))))"
    by blast
  then have a: "queryVariables (envWith userKeysConfig) friendsStore (oneObserver userKeysConfig) 0
     = Fulfilled [(''id'', JStr ''42'')]"
    by (simp add: input_defs eval_defs)
  let ?tc' = "\<lparr> keys = [''id''], resolve = Some \<lparr> arguments = Some userIDResolver \<rparr> \<rparr>"
  have u1: "types (getCurrentConfig (envWith userResolverConfig)) = Some [''User'' \<mapsto> ?tc']"
    by (simp add: envWith_def userResolverConfig_def)
  have u2: "[''User'' \<mapsto> ?tc'] (orEmpty (targetTypeOf friendsStore)) = Some ?tc'"
    by (simp add: orEmpty_def targetTypeOf_def friendsStore_def)
  have r': "resolveArguments ?tc' = Some userIDResolver" by (simp add: resolveArguments_def)
  have d': "userIDResolver (data (getStore (oneObserver userResolverConfig) 0))
              = Some [(''userID'', JStr ''42'')]"
    by (simp add: input_defs eval_defs)
  have k: "distinct (map fst [(''userID'', JStr ''42'')])" by simp
  from C7_queryVariables_resolves [OF u1 u2, of "oneObserver userResolverConfig" 0] r' d' k
  have b: "queryVariables (envWith userResolverConfig) friendsStore (oneObserver userResolverConfig) 0
     = Fulfilled [(''userID'', JStr ''42'')]"
    by blast
  from t1 d a b show ?thesis by simp
qed

text \<open>
  C7 for every cached value does not hold: the value of an observer is an object or
  \<^verbatim>\<open>null\<close>. With \<^verbatim>\<open>keys: ["id"]\<close>, no resolver and a cached value of \<^verbatim>\<open>null\<close>, reading
  \<^verbatim>\<open>value["id"]\<close> throws, and the promise of \<^verbatim>\<open>queryVariables\<close> is rejected with the
  \<^verbatim>\<open>TypeError\<close>: no object is returned.
\<close>

theorem C7_null_cached_value_rejects:
  "data (getStore nullValueWorld 0) = None
   \<and> keyFieldsForType nullValueEnv (getCurrentConfig nullValueEnv) (orEmpty (targetTypeOf friendsStore))
     = [''id'']
   \<and> queryVariables nullValueEnv friendsStore nullValueWorld 0 = Rejected TypeError"
  by (simp add: nullValueEnv_def nullValueWorld_def input_defs eval_defs)

text \<open>
  C8, as the code has it. Each \<^verbatim>\<open>fetchUpdate\<close> closure, of the cursor stores and of the
  offset store, calls \<^verbatim>\<open>send\<close> once, with \<^verbatim>\<open>cacheParams\<close> equal to
  \<^verbatim>\<open>{ applyUpdates: true }\<close>, whatever its argument is. Each plain \<^verbatim>\<open>fetch\<close> closure calls
  \<^verbatim>\<open>send\<close> once and sets no \<^verbatim>\<open>cacheParams\<close> of its own: \<^verbatim>\<open>send\<close> gets the
  \<^verbatim>\<open>cacheParams\<close> of the closure's argument as they are, and none when the closure is called
  with no argument.
\<close>

theorem C8_applyUpdates:
  "(\<exists>p. fst (storeHandlers_fetchUpdate env this observer args w)
                = Fulfilled (SendPromise observer p)
              \<and> obs_sent (heap (snd (storeHandlers_fetchUpdate env this observer args w)) observer)
                = obs_sent (heap w observer) @ [p]
              \<and> cacheParams p = Some \<lparr> applyUpdates = Some True \<rparr>)
       \<and> (\<exists>p. fst (offset_fetchUpdate env this observer args w)
                = Fulfilled (SendPromise observer p)
              \<and> obs_sent (heap (snd (offset_fetchUpdate env this observer args w)) observer)
                = obs_sent (heap w observer) @ [p]
              \<and> cacheParams p = Some \<lparr> applyUpdates = Some True \<rparr>)
       \<and> (\<exists>p. fst (storeHandlers_fetch env this observer args w)
                = Fulfilled (SendPromise observer p)
              \<and> obs_sent (heap (snd (storeHandlers_fetch env this observer args w)) observer)
                = obs_sent (heap w observer) @ [p]
              \<and> cacheParams p = cacheParams (spreadArgs args))
       \<and> (\<exists>p. fst (offset_fetch env this observer args w)
                = Fulfilled (SendPromise observer p)
              \<and> obs_sent (heap (snd (offset_fetch env this observer args w)) observer)
                = obs_sent (heap w observer) @ [p]
              \<and> cacheParams p = cacheParams (spreadArgs args))
       \<and> cacheParams (spreadArgs None) = None"
  by (simp add: closure_defs async_def Let_def sent_after_send sent_after_dropPromise)
    (simp add: send_def spreadArgs_def)

theorem C8_applyUpdates_witness:
  "cacheParams (spreadArgs nextPageArgs) = None
   \<and> map (map cacheParams)
       [ obs_sent (heap (snd (storeHandlers_fetchUpdate (envWith userKeysConfig) friendsStore 0
                               nextPageArgs (oneObserver userKeysConfig))) 0),
         obs_sent (heap (snd (offset_fetchUpdate (envWith userKeysConfig) friendsStore 0
                               nextPageArgs (oneObserver userKeysConfig))) 0),
         obs_sent (heap (snd (storeHandlers_fetch (envWith userKeysConfig) friendsStore 0
                               nextPageArgs (oneObserver userKeysConfig))) 0),
         obs_sent (heap (snd (offset_fetch (envWith userKeysConfig) friendsStore 0
                               nextPageArgs (oneObserver userKeysConfig))) 0) ]
     = [ [Some \<lparr> applyUpdates = Some True \<rparr>], [Some \<lparr> applyUpdates = Some True \<rparr>],
         [None], [None] ]"
proof -
  have h: "cacheParams (spreadArgs nextPageArgs) = None"
    by (simp add: spreadArgs_def nextPageArgs_def)
  have e: "obs_sent (heap (oneObserver userKeysConfig) 0) = []"
    by (simp add: input_defs eval_defs)
  from C8_applyUpdates [of "envWith userKeysConfig" friendsStore 0 nextPageArgs
                          "oneObserver userKeysConfig"] h e
  show ?thesis by auto
qed

text \<open>
  C8 with a plain \<^verbatim>\<open>fetch\<close> that never sends \<^verbatim>\<open>applyUpdates\<close> does not hold: both
  \<^verbatim>\<open>fetch\<close> closures pass \<^verbatim>\<open>...args\<close> on. Called with
  \<^verbatim>\<open>{ variables: { first: 10 }, cacheParams: { applyUpdates: true } }\<close>, each calls \<^verbatim>\<open>send\<close>
  with \<^verbatim>\<open>cacheParams\<close> equal to \<^verbatim>\<open>{ applyUpdates: true }\<close>.
\<close>

theorem C8_fetch_forwards_cacheParams:
  "obs_sent (heap (snd (storeHandlers_fetch (envWith userKeysConfig) friendsStore 0 reloadArgs
                          (oneObserver userKeysConfig))) 0)
     = [\<lparr> variables = Some [(''first'', JNum 10)],
          cacheParams = Some \<lparr> applyUpdates = Some True \<rparr>,
          otherParams = [] \<rparr>]
   \<and> obs_sent (heap (snd (offset_fetch (envWith userKeysConfig) friendsStore 0 reloadArgs
                          (oneObserver userKeysConfig))) 0)
     = [\<lparr> variables = Some [(''first'', JNum 10)],
          cacheParams = Some \<lparr> applyUpdates = Some True \<rparr>,
          otherParams = [] \<rparr>]"
  by (simp add: closure_defs reloadArgs_def input_defs eval_defs)

text \<open>
  C9. All members of a handle are to work on one observer. The cursor stores do not:
  \<^verbatim>\<open>FragmentStoreCursor.get\<close> creates the observer behind \<^verbatim>\<open>subscribe\<close>, \<^verbatim>\<open>data\<close>,
  \<^verbatim>\<open>pageInfo\<close> and \<^verbatim>\<open>fetch\<close>, and the \<^verbatim>\<open>get\<close> of the forward and of the backward store
  then creates a second observer, with handlers of its own, for the page-navigation
  member. In a world with no observer yet, the first four work on observer 0 and
  \<^verbatim>\<open>loadNextPage\<close> (\<^verbatim>\<open>loadPreviousPage\<close>) on observer 1, and two observers exist afterwards.
\<close>

theorem C9_page_load_on_second_observer:
  "map (memberObserver
          (fst (FragmentStoreForwardCursor_get (envWith userKeysConfig) friendsStore None emptyWorld)))
       [''subscribe'', ''data'', ''pageInfo'', ''fetch'', ''loadNextPage'']
     = [Some 0, Some 0, Some 0, Some 0, Some 1]
   \<and> map (memberObserver
          (fst (FragmentStoreBackwardCursor_get (envWith userKeysConfig) friendsStore None emptyWorld)))
       [''subscribe'', ''data'', ''pageInfo'', ''fetch'', ''loadPreviousPage'']
     = [Some 0, Some 0, Some 0, Some 0, Some 1]
   \<and> allocated (snd (FragmentStoreForwardCursor_get (envWith userKeysConfig) friendsStore None
                       emptyWorld)) = 2"
  by (simp add: FragmentStoreForwardCursor_get_handle FragmentStoreBackwardCursor_get_handle
        FragmentStoreForwardCursor_get_allocated memberObserver_def handlerObserver_def
        storeHandlers_def emptyWorld_def)

text \<open>
  C10. A forward-cursor handle has exactly the six members of the base handle and
  \<^verbatim>\<open>loadNextPage\<close>, which is the \<^verbatim>\<open>loadNextPage\<close> of the handlers that its \<^verbatim>\<open>get\<close> builds on
  the observer it creates; it has no \<^verbatim>\<open>loadPreviousPage\<close>. A backward-cursor handle has
  the same with \<^verbatim>\<open>loadPreviousPage\<close> and no \<^verbatim>\<open>loadNextPage\<close>. An offset handle has the own
  properties of its observer, \<^verbatim>\<open>kind\<close>, \<^verbatim>\<open>fetch\<close> and \<^verbatim>\<open>loadNextPage\<close>, which is the
  \<^verbatim>\<open>loadNextPage\<close> of its offset handlers; under no key does it hold a \<^verbatim>\<open>loadPreviousPage\<close>
  of any handlers, and the key \<^verbatim>\<open>loadPreviousPage\<close> could only hold a property copied from
  the observer itself.
\<close>

theorem C10_navigation_capabilities:
  "map fst (fst (FragmentStoreForwardCursor_get env this initialValue w))
     = [''kind'', ''data'', ''subscribe'', ''loading'', ''fetch'', ''pageInfo'', ''loadNextPage'']
   \<and> map_of (fst (FragmentStoreForwardCursor_get env this initialValue w)) ''loadNextPage''
     = Some (handlerMember (storeHandlers this (Suc (allocated w))) ''loadNextPage'')
   \<and> map_of (fst (FragmentStoreForwardCursor_get env this initialValue w)) ''loadPreviousPage''
     = None
   \<and> allocated (snd (FragmentStoreForwardCursor_get env this initialValue w))
     = Suc (Suc (allocated w))
   \<and> map fst (fst (FragmentStoreBackwardCursor_get env this initialValue w))
     = [''kind'', ''data'', ''subscribe'', ''loading'', ''fetch'', ''pageInfo'', ''loadPreviousPage'']
   \<and> map_of (fst (FragmentStoreBackwardCursor_get env this initialValue w)) ''loadPreviousPage''
     = Some (handlerMember (storeHandlers this (Suc (allocated w))) ''loadPreviousPage'')
   \<and> map_of (fst (FragmentStoreBackwardCursor_get env this initialValue w)) ''loadNextPage''
     = None
   \<and> allocated (snd (FragmentStoreBackwardCursor_get env this initialValue w))
     = Suc (Suc (allocated w))
   \<and> fst ` set (fst (FragmentStoreOffset_get env this initialValue w))
     = set (observerOwnKeys env) \<union> {''kind'', ''fetch'', ''loadNextPage''}
   \<and> map_of (fst (FragmentStoreOffset_get env this initialValue w)) ''loadNextPage''
     = Some (handlerMember
          (offsetHandlers
             \<lparr> hc_artifact = paginationArtifact this,
               hc_fetchUpdate = OffsetFetchUpdate (allocated w),
               hc_fetch = OffsetFetch (allocated w),
               hc_observer = allocated w,
               hc_storeName = name this \<rparr>) ''loadNextPage'')
   \<and> (\<forall>key hs. map_of (fst (FragmentStoreOffset_get env this initialValue w)) key
                  \<noteq> Some (handlerMember hs ''loadPreviousPage''))
   \<and> map_of (fst (FragmentStoreOffset_get env this initialValue w)) ''loadPreviousPage''
     = (if ''loadPreviousPage'' \<in> set (observerOwnKeys env)
        then Some (observerMember (allocated w) ''loadPreviousPage'') else None)
   \<and> allocated (snd (FragmentStoreOffset_get env this initialValue w)) = Suc (allocated w)"
  by (simp add: FragmentStoreForwardCursor_get_handle FragmentStoreBackwardCursor_get_handle
        FragmentStoreForwardCursor_get_allocated FragmentStoreBackwardCursor_get_allocated
        FragmentStoreOffset_get_allocated offset_handle_keys offset_handle_lookup)

theorem C10_navigation_capabilities_witness:
  "map (exposes (fst (FragmentStoreForwardCursor_get (envWith userKeysConfig) friendsStore None
                          emptyWorld))) [''loadNextPage'', ''loadPreviousPage'']
     = [True, False]
   \<and> map (exposes (fst (FragmentStoreBackwardCursor_get (envWith userKeysConfig) friendsStore None
                          emptyWorld))) [''loadNextPage'', ''loadPreviousPage'']
     = [False, True]
   \<and> map (exposes (fst (FragmentStoreOffset_get (envWith userKeysConfig) friendsStore None
                          emptyWorld))) [''loadNextPage'', ''loadPreviousPage'']
     = [True, False]
   \<and> map (memberObserver (fst (FragmentStoreOffset_get (envWith userKeysConfig) friendsStore None
                          emptyWorld))) [''fetch'', ''loadNextPage'']
     = [Some 0, Some 0]"
  using C10_navigation_capabilities [of "envWith userKeysConfig" friendsStore None emptyWorld]
  by (simp add: exposes_def memberObserver_def handlerObserver_def envWith_def emptyWorld_def
        offset_handle_lookup)


end
